theory Spec2Isabelle
  imports Main "HOL-Library.Sublist"
begin

section \<open>Python strings and JSON values\<close>

text \<open>
  Strings are byte strings; \<open>lower\<close>, \<open>upper\<close> and \<open>strip\<close> are Python's
  \<open>str.lower\<close>, \<open>str.upper\<close> and \<open>str.strip\<close> on the ASCII range.
\<close>

definition lower_char :: "char \<Rightarrow> char" where
  "lower_char c =
     (let n = (of_char c :: nat) in if 65 \<le> n \<and> n \<le> 90 then char_of (n + 32) else c)"

definition upper_char :: "char \<Rightarrow> char" where
  "upper_char c =
     (let n = (of_char c :: nat) in if 97 \<le> n \<and> n \<le> 122 then char_of (n - 32) else c)"

definition lower :: "string \<Rightarrow> string" where
  "lower s = map lower_char s"

definition upper :: "string \<Rightarrow> string" where
  "upper s = map upper_char s"

definition is_space :: "char \<Rightarrow> bool" where
  "is_space c = (let n = (of_char c :: nat) in (9 \<le> n \<and> n \<le> 13) \<or> (28 \<le> n \<and> n \<le> 32))"

definition strip :: "string \<Rightarrow> string" where
  "strip s = rev (dropWhile is_space (rev (dropWhile is_space s)))"

text \<open>\<open>startswith p s\<close> is \<open>s.startswith(p)\<close>; \<open>contains p s\<close> is \<open>p in s\<close>.\<close>

fun startswith :: "string \<Rightarrow> string \<Rightarrow> bool" where
  "startswith [] s = True"
| "startswith (p # ps) [] = False"
| "startswith (p # ps) (c # cs) = (p = c \<and> startswith ps cs)"

fun contains :: "string \<Rightarrow> string \<Rightarrow> bool" where
  "contains p [] = (p = [])"
| "contains p (c # cs) = (startswith p (c # cs) \<or> contains p cs)"

text \<open>\<open>join sep xs\<close> is \<open>sep.join(xs)\<close>.\<close>

fun join :: "string \<Rightarrow> string list \<Rightarrow> string" where
  "join sep [] = []"
| "join sep [x] = x"
| "join sep (x # y # ys) = x @ sep @ join sep (y # ys)"

text \<open>Decimal rendering of a natural number, as \<open>str(n)\<close> gives it.\<close>

definition digit_char :: "nat \<Rightarrow> char" where
  "digit_char d = char_of (48 + d)"

function show_nat :: "nat \<Rightarrow> string" where
  "show_nat n = (if n < 10 then [digit_char n] else show_nat (n div 10) @ [digit_char (n mod 10)])"
  by pat_completeness auto
termination
  by (relation "measure (\<lambda>n. n)") auto

declare show_nat.simps [simp del]

text \<open>
  A decoded JSON value. An object is an association list whose first binding of a key
  is the one a lookup sees. Python's \<open>None\<close> is \<open>JNull\<close>. Numbers are integers:
  nothing below depends on a fractional value.
\<close>

datatype json =
    JNull
  | JBool bool
  | JNum int
  | JStr string
  | JArr "json list"
  | JObj "(string \<times> json) list"

text \<open>
  The exceptions of the httpx library. \<open>is_RequestError\<close> and
  \<open>is_TimeoutException\<close> are \<open>isinstance\<close> against the two classes the host
  names in its \<open>except\<close> clauses, following the library's class hierarchy:
  \<open>TimeoutException\<close> (the four timeouts) and \<open>NetworkError\<close>, \<open>ProtocolError\<close>,
  \<open>ProxyError\<close>, \<open>UnsupportedProtocol\<close> derive from \<open>TransportError\<close>, which with
  \<open>DecodingError\<close> and \<open>TooManyRedirects\<close> derives from \<open>RequestError\<close>.
\<close>

datatype httpx_error =
    ConnectTimeout | ReadTimeout | WriteTimeout | PoolTimeout
  | ConnectError | ReadError | WriteError | CloseError
  | LocalProtocolError | RemoteProtocolError
  | ProxyError | UnsupportedProtocol
  | DecodingError | TooManyRedirects
  | HTTPStatusError | InvalidURL | CookieConflict | StreamError

fun is_TimeoutException :: "httpx_error \<Rightarrow> bool" where
  "is_TimeoutException ConnectTimeout = True"
| "is_TimeoutException ReadTimeout = True"
| "is_TimeoutException WriteTimeout = True"
| "is_TimeoutException PoolTimeout = True"
| "is_TimeoutException _ = False"

fun is_RequestError :: "httpx_error \<Rightarrow> bool" where
  "is_RequestError HTTPStatusError = False"
| "is_RequestError InvalidURL = False"
| "is_RequestError CookieConflict = False"
| "is_RequestError StreamError = False"
| "is_RequestError _ = True"

text \<open>
  The exceptions the host code meets: those Python raises on a decoded value, a failed
  decoding, those of httpx, and any other, with its text.
\<close>

datatype py_exc =
    TypeError | AttributeError | KeyError | IndexError
  | JSONDecodeError
  | Httpx httpx_error
  | Other_exception string

text \<open>Truth value of a Python object in \<open>if x:\<close>.\<close>

fun truthy :: "json \<Rightarrow> bool" where
  "truthy JNull = False"
| "truthy (JBool b) = b"
| "truthy (JNum n) = (n \<noteq> 0)"
| "truthy (JStr s) = (s \<noteq> [])"
| "truthy (JArr xs) = (xs \<noteq> [])"
| "truthy (JObj kvs) = (kvs \<noteq> [])"

text \<open>\<open>py_in k d\<close> is \<open>k in d\<close> for a string \<open>k\<close>.\<close>

fun py_in :: "string \<Rightarrow> json \<Rightarrow> py_exc + bool" where
  "py_in k (JObj kvs) = Inr (k \<in> set (map fst kvs))"
| "py_in k (JArr xs) = Inr (JStr k \<in> set xs)"
| "py_in k (JStr s) = Inr (contains k s)"
| "py_in k _ = Inl TypeError"

text \<open>\<open>py_getitem d k\<close> is \<open>d[k]\<close> for a string \<open>k\<close>.\<close>

fun py_getitem :: "json \<Rightarrow> string \<Rightarrow> py_exc + json" where
  "py_getitem (JObj kvs) k = (case map_of kvs k of None \<Rightarrow> Inl KeyError | Some v \<Rightarrow> Inr v)"
| "py_getitem _ k = Inl TypeError"

text \<open>\<open>py_get d k dflt\<close> is \<open>d.get(k, dflt)\<close>; only a dict has the method.\<close>

fun py_get :: "json \<Rightarrow> string \<Rightarrow> json \<Rightarrow> py_exc + json" where
  "py_get (JObj kvs) k dflt = (case map_of kvs k of None \<Rightarrow> Inr dflt | Some v \<Rightarrow> Inr v)"
| "py_get _ k dflt = Inl AttributeError"

text \<open>A decoded JSON object, a Python dict.\<close>

fun is_object :: "json \<Rightarrow> bool" where
  "is_object (JObj kvs) = True"
| "is_object _ = False"

text \<open>
  \<open>fmt str_of v\<close> is how an f-string renders \<open>v\<close>: a string as itself, any other value
  through \<open>str()\<close>, which is the parameter \<open>str_of\<close>.
\<close>

fun fmt :: "(json \<Rightarrow> string) \<Rightarrow> json \<Rightarrow> string" where
  "fmt str_of (JStr s) = s"
| "fmt str_of v = str_of v"

section \<open>The streaming host (src/mcp-host.py)\<close>

subsection \<open>Reading the event stream\<close>

text \<open>
  The loop over \<open>response.aiter_lines()\<close> keeps \<open>products_data\<close> and writes log
  records. \<open>json_loads\<close> is \<open>json.loads\<close>, with \<open>None\<close> for a \<open>JSONDecodeError\<close>.
\<close>

datatype log_record =
    Received_products json
  | Stream_error json
  | Failed_to_parse string
  | Stream_closed

record sse_state =
  products_data :: json
  log :: "log_record list"

datatype sse_step = Next_line sse_state | Break sse_state | Raised py_exc

definition sse_data :: "json \<Rightarrow> sse_state \<Rightarrow> sse_step" where
  "sse_data data st =
     (case py_in ''result'' data of
        Inl e \<Rightarrow> Raised e
      | Inr True \<Rightarrow>
          (case py_getitem data ''result'' of
             Inl e \<Rightarrow> Raised e
           | Inr v \<Rightarrow> Next_line (st\<lparr>products_data := v, log := log st @ [Received_products v]\<rparr>))
      | Inr False \<Rightarrow>
          (case py_in ''error'' data of
             Inl e \<Rightarrow> Raised e
           | Inr True \<Rightarrow>
               (case py_getitem data ''error'' of
                  Inl e \<Rightarrow> Raised e
                | Inr v \<Rightarrow> Next_line (st\<lparr>log := log st @ [Stream_error v]\<rparr>))
           | Inr False \<Rightarrow> Next_line st))"

definition sse_line :: "(string \<Rightarrow> json option) \<Rightarrow> string \<Rightarrow> sse_state \<Rightarrow> sse_step" where
  "sse_line json_loads line st =
     (if startswith ''data: '' line then
        (case json_loads (drop 6 line) of
           None \<Rightarrow> Next_line (st\<lparr>log := log st @ [Failed_to_parse line]\<rparr>)
         | Some data \<Rightarrow> sse_data data st)
      else if startswith ''event: close'' line then
        Break (st\<lparr>log := log st @ [Stream_closed]\<rparr>)
      else Next_line st)"

fun sse_loop :: "(string \<Rightarrow> json option) \<Rightarrow> string list \<Rightarrow> sse_state \<Rightarrow> py_exc + sse_state" where
  "sse_loop json_loads [] st = Inr st"
| "sse_loop json_loads (line # lines) st =
     (case sse_line json_loads line st of
        Raised e \<Rightarrow> Inl e
      | Break st' \<Rightarrow> Inr st'
      | Next_line st' \<Rightarrow> sse_loop json_loads lines st')"

definition sse_start :: sse_state where
  "sse_start = \<lparr>products_data = JNull, log = []\<rparr>"

subsection \<open>Formatting the products\<close>

text \<open>
  One entry of the enumeration: \<open>f"{i}. {product.get('product_name', 'Unknown')}"\<close>, then
  \<open>" by <brand>"\<close> when the product has a brand name, then a blank line.
\<close>

definition product_entry :: "(json \<Rightarrow> string) \<Rightarrow> nat \<Rightarrow> json \<Rightarrow> py_exc + string" where
  "product_entry str_of i product =
     (case py_get product ''product_name'' (JStr ''Unknown'') of
        Inl e \<Rightarrow> Inl e
      | Inr pname \<Rightarrow>
          (case py_in ''brand_name'' product of
             Inl e \<Rightarrow> Inl e
           | Inr False \<Rightarrow>
               Inr (show_nat i @ ''. '' @ fmt str_of pname @ [CHR 0x0A, CHR 0x0A])
           | Inr True \<Rightarrow>
               (case py_get product ''brand_name'' (JStr ''Unknown'') of
                  Inl e \<Rightarrow> Inl e
                | Inr brand \<Rightarrow>
                    Inr (show_nat i @ ''. '' @ fmt str_of pname
                         @ '' by '' @ fmt str_of brand @ [CHR 0x0A, CHR 0x0A]))))"

text \<open>The loop \<open>for i, product in enumerate(products, i)\<close> appending to the text.\<close>

fun product_entries :: "(json \<Rightarrow> string) \<Rightarrow> nat \<Rightarrow> json list \<Rightarrow> string \<Rightarrow> py_exc + string" where
  "product_entries str_of i [] response_text = Inr response_text"
| "product_entries str_of i (p # ps) response_text =
     (case product_entry str_of i p of
        Inl e \<Rightarrow> Inl e
      | Inr entry \<Rightarrow> product_entries str_of (Suc i) ps (response_text @ entry))"

definition header :: string where
  "header = ''Here are the products I found:'' @ [CHR 0x0A, CHR 0x0A]"

text \<open>
  The body of \<open>if products_data:\<close>. \<open>dumps\<close> is \<open>json.dumps(_, indent=2)\<close>.
\<close>

definition format_products :: "(json \<Rightarrow> string) \<Rightarrow> (json \<Rightarrow> string) \<Rightarrow> json \<Rightarrow> py_exc + string" where
  "format_products str_of dumps pd =
     (case pd of
        JArr products \<Rightarrow>
          (case product_entries str_of 1 (take 10 products) header of
             Inl e \<Rightarrow> Inl e
           | Inr response_text \<Rightarrow>
               if length products > 10 then
                 Inr (response_text
                      @ ''(Showing 10 of '' @ show_nat (length products) @ '' products)'')
               else if length products = 0 then Inr ''No products were found.''
               else Inr response_text)
      | _ \<Rightarrow> Inr (header @ ''Found product data: '' @ dumps pd))"

subsection \<open>Choosing and running the products tool\<close>

text \<open>
  The trigger test on \<open>message.lower().strip()\<close>, and the search of the registry for
  the descriptor named \<open>get_products\<close> (\<open>tool.get("name") == name\<close>, first match).
\<close>

definition wants_products :: "string \<Rightarrow> bool" where
  "wants_products message =
     (let message_lower = strip (lower message)
      in contains ''get products'' message_lower
         \<or> contains ''fetch products'' message_lower
         \<or> contains ''show products'' message_lower)"

fun find_tool :: "string \<Rightarrow> json list \<Rightarrow> py_exc + json option" where
  "find_tool n [] = Inr None"
| "find_tool n (tool # tools) =
     (case py_get tool ''name'' JNull of
        Inl e \<Rightarrow> Inl e
      | Inr v \<Rightarrow> if v = JStr n then Inr (Some tool) else find_tool n tools)"

definition select_products_tool :: "json list \<Rightarrow> string \<Rightarrow> py_exc + json option" where
  "select_products_tool tools message =
     (if wants_products message then
        (case find_tool ''get_products'' tools of
           Inl e \<Rightarrow> Inl e
         | Inr None \<Rightarrow> Inr None
         | Inr (Some tool) \<Rightarrow> if truthy tool then Inr (Some tool) else Inr None)
      else Inr None)"

text \<open>
  The streamed POST to \<open><server_url>/run\<close>: it raises (while connecting or while
  reading, both end in the same handler), or answers with a status and the lines of
  its body.
\<close>

datatype stream_outcome = Stream_raised py_exc | Stream_response nat "string list"

text \<open>
  What the host is started with and talks to: \<open>json.loads\<close>, \<open>str()\<close> and
  \<open>json.dumps(_, indent=2)\<close>, the registry, the configured servers and the
  streamed POST.
\<close>

record py_env =
  loads :: "string \<Rightarrow> json option"
  to_str :: "json \<Rightarrow> string"
  to_json :: "json \<Rightarrow> string"
  available_tools :: "json list"

record root_env = py_env +
  tool_servers :: "json list"
  post_run :: "string \<Rightarrow> stream_outcome"

definition first_server_url :: "json list \<Rightarrow> py_exc + json" where
  "first_server_url servers =
     (case servers of [] \<Rightarrow> Inl IndexError | server # _ \<Rightarrow> py_getitem server ''url'')"

text \<open>What follows the loop: the reply when \<open>products_data\<close> is truthy, else nothing.\<close>

definition reply_of_products :: "'a root_env_scheme \<Rightarrow> json \<Rightarrow> py_exc + string option" where
  "reply_of_products env pd =
     (if truthy pd then
        (case format_products (to_str env) (to_json env) pd of
           Inl e \<Rightarrow> Inl e
         | Inr response_text \<Rightarrow> Inr (Some response_text))
      else Inr None)"

definition run_products_tool :: "'a root_env_scheme \<Rightarrow> py_exc + string option" where
  "run_products_tool env =
     (case first_server_url (tool_servers env) of
        Inl e \<Rightarrow> Inl e
      | Inr server_url \<Rightarrow>
          (case post_run env (fmt (to_str env) server_url @ ''/run'') of
             Stream_raised e \<Rightarrow> Inl e
           | Stream_response status lines \<Rightarrow>
               if status = 200 then
                 (case sse_loop (loads env) lines sse_start of
                    Inl e \<Rightarrow> Inl e
                  | Inr st \<Rightarrow> reply_of_products env (products_data st))
               else Inr None))"

text \<open>
  \<open>check_and_use_tools\<close>: every exception inside the \<open>try\<close> is logged and the
  function returns \<open>None\<close>.
\<close>

definition check_and_use_tools :: "'a root_env_scheme \<Rightarrow> string \<Rightarrow> string option" where
  "check_and_use_tools env message =
     (case select_products_tool (available_tools env) message of
        Inl e \<Rightarrow> None
      | Inr None \<Rightarrow> None
      | Inr (Some tool) \<Rightarrow>
          (case run_products_tool env of Inl e \<Rightarrow> None | Inr r \<Rightarrow> r))"

subsection \<open>Discovery\<close>

text \<open>
  A GET request raises, or answers with a status and a body; \<open>response.json()\<close> of
  the body is a value, or \<open>None\<close> when it raises.
\<close>

datatype http_outcome = Http_raised py_exc | Http_response nat "json option"

text \<open>
  \<open>tools.extend(v)\<close> iterates over \<open>v\<close>: the items of a list, the keys of a dict
  (decoded objects have distinct keys), the characters of a string; other values are
  not iterable.
\<close>

fun py_iter :: "json \<Rightarrow> py_exc + json list" where
  "py_iter (JArr xs) = Inr xs"
| "py_iter (JObj kvs) = Inr (map (\<lambda>kv. JStr (fst kv)) kvs)"
| "py_iter (JStr s) = Inr (map (\<lambda>c. JStr [c]) s)"
| "py_iter _ = Inl TypeError"

text \<open>
  What one server adds to \<open>tools\<close> inside the \<open>try\<close>: the decoded body of
  \<open>GET <server_url>/tools\<close> on status 200, nothing on any other status or exception.
\<close>

definition fetch_tools :: "(json \<Rightarrow> string) \<Rightarrow> (string \<Rightarrow> http_outcome) \<Rightarrow> json \<Rightarrow> json list" where
  "fetch_tools str_of http_get server_url =
     (case http_get (fmt str_of server_url @ ''/tools'') of
        Http_raised e \<Rightarrow> []
      | Http_response status body \<Rightarrow>
          if status = 200 then
            (case body of
               None \<Rightarrow> []
             | Some server_tools \<Rightarrow>
                 (case py_iter server_tools of Inl e \<Rightarrow> [] | Inr ts \<Rightarrow> ts))
          else [])"

text \<open>
  \<open>discover_tools\<close> of src/mcp-host.py. \<open>server["url"]\<close> is read outside the
  \<open>try\<close>, so a configuration entry without it raises out of the function.
\<close>

fun discover_tools :: "(json \<Rightarrow> string) \<Rightarrow> (string \<Rightarrow> http_outcome) \<Rightarrow> json list \<Rightarrow> json list \<Rightarrow> py_exc + json list" where
  "discover_tools str_of http_get [] tools = Inr tools"
| "discover_tools str_of http_get (server # servers) tools =
     (case py_getitem server ''url'' of
        Inl e \<Rightarrow> Inl e
      | Inr server_url \<Rightarrow>
          discover_tools str_of http_get servers (tools @ fetch_tools str_of http_get server_url))"

subsection \<open>The message loop with the host-wide history\<close>

text \<open>
  \<open>self.messages_history\<close> is one list of the host object; every connection's
  \<open>handle_client\<close> appends to it and sends it to the language model.
  \<open>use_gemini\<close> is \<open>USE_GEMINI and GEMINI_API_KEY\<close>; \<open>query_gemini\<close> is the
  method of that name, which reads the message and \<open>self.messages_history[:-1]\<close>
  and always returns a text.
\<close>

record message =
  role :: string
  content :: json

datatype ollama_outcome = Ollama_raised py_exc | Ollama_response nat "json option"

record llm_env = root_env +
  use_gemini :: bool
  query_gemini :: "string \<Rightarrow> message list \<Rightarrow> string"
  ollama_chat :: "message list \<Rightarrow> ollama_outcome"

datatype error_text =
    Unknown_message_format
  | Error_processing_message py_exc
  | Ollama_request_failed nat

text \<open>The frames a host sends to a connection.\<close>

datatype frame =
    System_message string
  | Llm_response json json
  | History_cleared
  | Error_frame error_text

datatype llm_call = Gemini_call string "message list" | Ollama_call "message list"

text \<open>
  What one inbound frame leads to: the history after it, the frames sent back and the
  outbound requests made, in order.
\<close>

record 'c turn =
  history :: "message list"
  sent :: "frame list"
  calls :: "'c list"

text \<open>The two accepted frame formats; \<open>None\<close> is the unknown format.\<close>

definition message_field :: "json \<Rightarrow> py_exc + json option" where
  "message_field data =
     (case py_in ''message'' data of
        Inl e \<Rightarrow> Inl e
      | Inr True \<Rightarrow>
          (case py_getitem data ''message'' of Inl e \<Rightarrow> Inl e | Inr v \<Rightarrow> Inr (Some v))
      | Inr False \<Rightarrow> Inr None)"

definition user_message_of :: "json \<Rightarrow> py_exc + json option" where
  "user_message_of data =
     (case py_in ''type'' data of
        Inl e \<Rightarrow> Inl e
      | Inr False \<Rightarrow> message_field data
      | Inr True \<Rightarrow>
          (case py_getitem data ''type'' of
             Inl e \<Rightarrow> Inl e
           | Inr t \<Rightarrow>
               if t = JStr ''user_message'' then
                 (case py_getitem data ''content'' of Inl e \<Rightarrow> Inl e | Inr v \<Rightarrow> Inr (Some v))
               else message_field data))"

text \<open>The branch "No tool matched, use LLM".\<close>

definition ask_llm :: "'a llm_env_scheme \<Rightarrow> string \<Rightarrow> message list \<Rightarrow> llm_call turn" where
  "ask_llm env user_message h =
     (if use_gemini env then
        (let response_text = query_gemini env user_message (butlast h)
         in \<lparr>history = h @ [\<lparr>role = ''assistant'', content = JStr response_text\<rparr>],
             sent = [Llm_response (JStr user_message) (JStr response_text)],
             calls = [Gemini_call user_message (butlast h)]\<rparr>)
      else
        (case ollama_chat env h of
           Ollama_raised e \<Rightarrow>
             \<lparr>history = h, sent = [Error_frame (Error_processing_message e)],
              calls = [Ollama_call h]\<rparr>
         | Ollama_response status body \<Rightarrow>
             if status = 200 then
               (case (case body of
                        None \<Rightarrow> Inl JSONDecodeError
                      | Some b \<Rightarrow>
                          (case py_getitem b ''message'' of
                             Inl e \<Rightarrow> Inl e
                           | Inr assistant_message \<Rightarrow> py_getitem assistant_message ''content'')) of
                  Inl e \<Rightarrow>
                    \<lparr>history = h, sent = [Error_frame (Error_processing_message e)],
                     calls = [Ollama_call h]\<rparr>
                | Inr c \<Rightarrow>
                    \<lparr>history = h @ [\<lparr>role = ''assistant'', content = c\<rparr>],
                     sent = [Llm_response (JStr user_message) c],
                     calls = [Ollama_call h]\<rparr>)
             else
               \<lparr>history = h, sent = [Error_frame (Ollama_request_failed status)],
                calls = [Ollama_call h]\<rparr>))"

text \<open>
  One iteration of \<open>async for message in websocket\<close>, from the history the host
  holds before it to the history after it, the frames sent to this connection and the
  requests made to the language model. \<open>message.lower()\<close> in
  \<open>check_and_use_tools\<close> raises on a value that is not a string, after the value has
  been appended.
\<close>

definition handle_message :: "'a llm_env_scheme \<Rightarrow> string \<Rightarrow> message list \<Rightarrow> llm_call turn" where
  "handle_message env raw h =
     (case loads env raw of
        None \<Rightarrow>
          \<lparr>history = h, sent = [Error_frame (Error_processing_message JSONDecodeError)], calls = []\<rparr>
      | Some data \<Rightarrow>
          (case user_message_of data of
             Inl e \<Rightarrow> \<lparr>history = h, sent = [Error_frame (Error_processing_message e)], calls = []\<rparr>
           | Inr None \<Rightarrow> \<lparr>history = h, sent = [Error_frame Unknown_message_format], calls = []\<rparr>
           | Inr (Some um) \<Rightarrow>
               (let h1 = h @ [\<lparr>role = ''user'', content = um\<rparr>]
                in case um of
                     JStr user_message \<Rightarrow>
                       (case check_and_use_tools env user_message of
                          None \<Rightarrow> ask_llm env user_message h1
                        | Some tool_response \<Rightarrow>
                            if tool_response \<noteq> [] then
                              \<lparr>history = h1 @ [\<lparr>role = ''assistant'', content = JStr tool_response\<rparr>],
                               sent = [Llm_response (JStr user_message) (JStr tool_response)],
                               calls = []\<rparr>
                            else ask_llm env user_message h1)
                   | _ \<Rightarrow>
                       \<lparr>history = h1,
                        sent = [Error_frame (Error_processing_message AttributeError)],
                        calls = []\<rparr>)))"

text \<open>
  The host serving several connections: each arriving frame, tagged with its
  connection, is handled on the one history; every connection gets the frames sent
  to it.
\<close>

record host_state =
  messages_history :: "message list"
  outbox :: "(nat \<times> frame) list"
  requests :: "(nat \<times> llm_call) list"

definition deliver :: "'a llm_env_scheme \<Rightarrow> host_state \<Rightarrow> nat \<times> string \<Rightarrow> host_state" where
  "deliver env st ev =
     (let t = handle_message env (snd ev) (messages_history st)
      in \<lparr>messages_history = history t,
          outbox = outbox st @ map (Pair (fst ev)) (sent t),
          requests = requests st @ map (Pair (fst ev)) (calls t)\<rparr>)"

definition run_host :: "'a llm_env_scheme \<Rightarrow> (nat \<times> string) list \<Rightarrow> host_state" where
  "run_host env evs =
     foldl (deliver env) \<lparr>messages_history = [], outbox = [], requests = []\<rparr> evs"

text \<open>The frames one connection has received.\<close>

definition received_by :: "nat \<Rightarrow> host_state \<Rightarrow> frame list" where
  "received_by ws st = map snd (filter (\<lambda>p. fst p = ws) (outbox st))"

section \<open>The delegating host (src/host/mcp-host.py)\<close>

subsection \<open>Discovery\<close>

definition static_tool :: "(json \<Rightarrow> string) \<Rightarrow> string \<Rightarrow> string \<Rightarrow> json \<Rightarrow> json \<Rightarrow> json" where
  "static_tool str_of n d server_url server_path =
     JObj [(''name'', JStr n), (''description'', JStr d), (''parameters'', JObj []),
           (''url'', JStr (fmt str_of server_url @ fmt str_of server_path))]"

text \<open>\<open>s.lower()\<close> on a decoded value: only a string has the method.\<close>

fun py_lower :: "json \<Rightarrow> py_exc + string" where
  "py_lower (JStr s) = Inr (lower s)"
| "py_lower _ = Inl AttributeError"

text \<open>
  What one server adds inside the \<open>try\<close>: the well-known tool for a server whose
  name holds eagle, product or analytics, the dynamically discovered tools otherwise,
  nothing when an exception is caught.
\<close>

definition server_tools_host :: "(json \<Rightarrow> string) \<Rightarrow> (string \<Rightarrow> http_outcome) \<Rightarrow> json \<Rightarrow> json \<Rightarrow> json \<Rightarrow> json list" where
  "server_tools_host str_of http_get server_url server_name server_path =
     (case py_lower server_name of
        Inl e \<Rightarrow> []
      | Inr n \<Rightarrow>
          if contains ''eagle'' n then
            [static_tool str_of ''get_eagle_feeds''
               ''Get information about eagle live feeds and webcams'' server_url server_path]
          else if contains ''product'' n then
            [static_tool str_of ''get_products''
               ''Get information about available products'' server_url server_path]
          else if contains ''analytics'' n then
            [static_tool str_of ''get_analytics''
               ''Get analytics data and metrics'' server_url server_path]
          else fetch_tools str_of http_get server_url)"

fun discover_tools_host :: "(json \<Rightarrow> string) \<Rightarrow> (string \<Rightarrow> http_outcome) \<Rightarrow> json list \<Rightarrow> json list \<Rightarrow> py_exc + json list" where
  "discover_tools_host str_of http_get [] tools = Inr tools"
| "discover_tools_host str_of http_get (server # servers) tools =
     (case py_getitem server ''url'' of
        Inl e \<Rightarrow> Inl e
      | Inr server_url \<Rightarrow>
          (case py_get server ''name'' (JStr ''unknown'') of
             Inl e \<Rightarrow> Inl e
           | Inr server_name \<Rightarrow>
               (case py_get server ''path'' (JStr []) of
                  Inl e \<Rightarrow> Inl e
                | Inr server_path \<Rightarrow>
                    discover_tools_host str_of http_get servers
                      (tools @ server_tools_host str_of http_get server_url server_name server_path))))"

subsection \<open>Choosing a tool through the language model\<close>

text \<open>
  \<open>gemini\<close> is \<open>query_gemini\<close> of this host: \<open>self.messages_history\<close> is never
  appended to here, so the answer depends on the prompt only. \<open>tool_get\<close> is
  \<open>client.get(tool_url)\<close> with \<open>response.json()\<close>; \<open>exc_text\<close> is \<open>str(e)\<close>.
\<close>

record host_env = py_env +
  gemini :: "string \<Rightarrow> string"
  tool_get :: "json \<Rightarrow> http_outcome"
  exc_text :: "py_exc \<Rightarrow> string"

datatype host_call = Gemini_query string | Tool_get json

definition describe_tool :: "(json \<Rightarrow> string) \<Rightarrow> json \<Rightarrow> py_exc + string" where
  "describe_tool str_of tool =
     (case py_getitem tool ''name'' of
        Inl e \<Rightarrow> Inl e
      | Inr n \<Rightarrow>
          (case py_getitem tool ''description'' of
             Inl e \<Rightarrow> Inl e
           | Inr d \<Rightarrow> Inr (''- '' @ fmt str_of n @ '': '' @ fmt str_of d)))"

fun describe_tools :: "(json \<Rightarrow> string) \<Rightarrow> json list \<Rightarrow> py_exc + string list" where
  "describe_tools str_of [] = Inr []"
| "describe_tools str_of (tool # tools) =
     (case describe_tool str_of tool of
        Inl e \<Rightarrow> Inl e
      | Inr d \<Rightarrow>
          (case describe_tools str_of tools of Inl e \<Rightarrow> Inl e | Inr ds \<Rightarrow> Inr (d # ds)))"

definition indent :: string where
  "indent = replicate 12 CHR '' ''"

definition tool_selection_prompt :: "string \<Rightarrow> string \<Rightarrow> string" where
  "tool_selection_prompt tool_descriptions message =
     [CHR 0x0A] @ indent
     @ ''Based on the user'' @ [CHR 0x27]
     @ ''s message, determine if any of the following tools should be used:''
     @ [CHR 0x0A] @ indent @ [CHR 0x0A] @ indent @ tool_descriptions
     @ [CHR 0x0A] @ indent @ [CHR 0x0A] @ indent
     @ ''User message: '' @ [CHR 0x22] @ message @ [CHR 0x22]
     @ [CHR 0x0A] @ indent @ [CHR 0x0A] @ indent
     @ ''If a tool should be used, respond with the tool name only. ''
     @ ''If no tool is appropriate, respond with '' @ [CHR 0x22] @ ''none'' @ [CHR 0x22] @ ''.''
     @ [CHR 0x0A] @ indent"

text \<open>
  The loop "Find the selected tool": the first tool whose lowered name is a substring
  of the decision.
\<close>

fun select_tool :: "string \<Rightarrow> json list \<Rightarrow> py_exc + json option" where
  "select_tool tool_decision [] = Inr None"
| "select_tool tool_decision (tool # tools) =
     (case py_getitem tool ''name'' of
        Inl e \<Rightarrow> Inl e
      | Inr n \<Rightarrow>
          (case py_lower n of
             Inl e \<Rightarrow> Inl e
           | Inr ln \<Rightarrow>
               if contains ln tool_decision then Inr (Some tool)
               else select_tool tool_decision tools))"

subsection \<open>Running the chosen tool\<close>

definition too_long :: "string \<Rightarrow> string" where
  "too_long tool_name =
     ''The '' @ tool_name @ '' tool is taking too long to respond. Please try again later.''"

definition connection_error :: "string \<Rightarrow> string" where
  "connection_error tool_name =
     ''I tried to use the '' @ tool_name
     @ '' tool, but encountered a connection error. Please check if the service is available and try again.''"

definition other_error :: "string \<Rightarrow> string \<Rightarrow> string" where
  "other_error tool_name text =
     ''I encountered an error while using the '' @ tool_name @ '' tool: '' @ text
     @ ''. Please try again later.''"

definition http_error :: "string \<Rightarrow> nat \<Rightarrow> string" where
  "http_error tool_name status =
     ''I tried to use the '' @ tool_name @ '' tool, but encountered an error (HTTP ''
     @ show_nat status @ ''). Please try again later.''"

text \<open>
  The three \<open>except\<close> clauses after the request, tried in the order written:
  \<open>httpx.RequestError\<close>, \<open>httpx.TimeoutException\<close>, \<open>Exception\<close>.
\<close>

definition on_exception :: "'a host_env_scheme \<Rightarrow> string \<Rightarrow> py_exc \<Rightarrow> string" where
  "on_exception env tool_name e =
     (if (case e of Httpx h \<Rightarrow> is_RequestError h | _ \<Rightarrow> False) then connection_error tool_name
      else if (case e of Httpx h \<Rightarrow> is_TimeoutException h | _ \<Rightarrow> False) then too_long tool_name
      else other_error tool_name (exc_text env e))"

text \<open>
  The debugging \<open>print\<close> of the first 200 characters evaluates
  \<open>len(formatted_content)\<close> and, above 200, \<open>formatted_content[:200] + "..."\<close>.
\<close>

fun preview :: "json \<Rightarrow> py_exc + unit" where
  "preview (JStr s) = Inr ()"
| "preview (JArr xs) = (if length xs > 200 then Inl TypeError else Inr ())"
| "preview (JObj kvs) = (if length kvs > 200 then Inl TypeError else Inr ())"
| "preview _ = Inl TypeError"

definition legacy_reply :: "'a host_env_scheme \<Rightarrow> json \<Rightarrow> string" where
  "legacy_reply env response_data =
     ''Here'' @ [CHR 0x27] @ ''s the information I found:'' @ [CHR 0x0A, CHR 0x0A]
     @ ''```json'' @ [CHR 0x0A] @ to_json env response_data @ [CHR 0x0A] @ ''```''"

definition on_response :: "'a host_env_scheme \<Rightarrow> string \<Rightarrow> nat \<Rightarrow> json option \<Rightarrow> py_exc + json" where
  "on_response env tool_name status body =
     (if status = 200 then
        (case body of
           None \<Rightarrow> Inl JSONDecodeError
         | Some response_data \<Rightarrow>
             (case py_in ''formatted_content'' response_data of
                Inl e \<Rightarrow> Inl e
              | Inr True \<Rightarrow>
                  (case py_getitem response_data ''formatted_content'' of
                     Inl e \<Rightarrow> Inl e
                   | Inr formatted_content \<Rightarrow>
                       (case preview formatted_content of
                          Inl e \<Rightarrow> Inl e
                        | Inr _ \<Rightarrow> Inr formatted_content))
              | Inr False \<Rightarrow> Inr (JStr (legacy_reply env response_data))))
      else Inr (JStr (http_error tool_name status)))"

definition use_tool :: "'a host_env_scheme \<Rightarrow> string \<Rightarrow> json \<Rightarrow> json" where
  "use_tool env tool_name tool_url =
     (case tool_get env tool_url of
        Http_raised e \<Rightarrow> JStr (on_exception env tool_name e)
      | Http_response status body \<Rightarrow>
          (case on_response env tool_name status body of
             Inl e \<Rightarrow> JStr (on_exception env tool_name e)
           | Inr r \<Rightarrow> r))"

text \<open>
  \<open>check_and_use_tools\<close> of this host returns the reply, or \<open>None\<close> for the
  Python \<open>None\<close>; the outer \<open>except\<close> turns every exception outside the request
  into \<open>None\<close>. The second component lists the outbound requests made.
\<close>

definition invoke_selected :: "'a host_env_scheme \<Rightarrow> json \<Rightarrow> json option" where
  "invoke_selected env selected_tool =
     (case py_getitem selected_tool ''name'' of
        Inl e \<Rightarrow> None
      | Inr tool_name \<Rightarrow>
          (case py_getitem selected_tool ''url'' of
             Inl e \<Rightarrow> None
           | Inr tool_url \<Rightarrow> Some (use_tool env (fmt (to_str env) tool_name) tool_url)))"

definition invoke_calls :: "json \<Rightarrow> host_call list" where
  "invoke_calls selected_tool =
     (case py_getitem selected_tool ''name'' of
        Inl e \<Rightarrow> []
      | Inr tool_name \<Rightarrow>
          (case py_getitem selected_tool ''url'' of
             Inl e \<Rightarrow> []
           | Inr tool_url \<Rightarrow> [Tool_get tool_url]))"

definition tool_decision_of :: "'a host_env_scheme \<Rightarrow> string \<Rightarrow> string" where
  "tool_decision_of env prompt = lower (strip (gemini env prompt))"

definition check_and_use_tools_host :: "'a host_env_scheme \<Rightarrow> string \<Rightarrow> json option \<times> host_call list" where
  "check_and_use_tools_host env message =
     (case describe_tools (to_str env) (available_tools env) of
        Inl e \<Rightarrow> (None, [])
      | Inr ds \<Rightarrow>
          (let prompt = tool_selection_prompt (join [CHR 0x0A] ds) message;
               tool_decision = tool_decision_of env prompt
           in if tool_decision = ''none'' \<or> tool_decision = [] then (None, [Gemini_query prompt])
              else
                (case select_tool tool_decision (available_tools env) of
                   Inl e \<Rightarrow> (None, [Gemini_query prompt])
                 | Inr None \<Rightarrow> (None, [Gemini_query prompt])
                 | Inr (Some selected_tool) \<Rightarrow>
                     if truthy selected_tool then
                       (invoke_selected env selected_tool,
                        Gemini_query prompt # invoke_calls selected_tool)
                     else (None, [Gemini_query prompt]))))"

subsection \<open>The message loop with a history per connection\<close>

text \<open>\<open>xs[i:]\<close> for any integer \<open>i\<close>, as Python slices.\<close>

definition slice_from :: "int \<Rightarrow> 'a list \<Rightarrow> 'a list" where
  "slice_from i xs =
     (let n = int (length xs);
          start = (if i < 0 then max 0 (n + i) else min i n)
      in drop (nat start) xs)"

definition role_line :: "(json \<Rightarrow> string) \<Rightarrow> message \<Rightarrow> string" where
  "role_line str_of msg = upper (role msg) @ '': '' @ fmt str_of (content msg)"

definition formatted_history :: "(json \<Rightarrow> string) \<Rightarrow> message list \<Rightarrow> string" where
  "formatted_history str_of message_history =
     join [CHR 0x0A] (map (role_line str_of) (slice_from (- 5) message_history))"

text \<open>The branch "No tool was used, query LLM".\<close>

definition query_llm :: "'a host_env_scheme \<Rightarrow> string \<Rightarrow> message list \<Rightarrow> host_call list \<Rightarrow> host_call turn" where
  "query_llm env user_content h cs =
     (let prompt = formatted_history (to_str env) h;
          llm_response = gemini env prompt
      in \<lparr>history = h @ [\<lparr>role = ''assistant'', content = JStr llm_response\<rparr>],
          sent = [Llm_response (JStr user_content) (JStr llm_response)],
          calls = cs @ [Gemini_query prompt]\<rparr>)"

text \<open>A user message whose stripped content is not empty.\<close>

definition user_turn :: "'a host_env_scheme \<Rightarrow> string \<Rightarrow> message list \<Rightarrow> host_call turn" where
  "user_turn env user_content h =
     (let h1 = h @ [\<lparr>role = ''user'', content = JStr user_content\<rparr>];
          r = check_and_use_tools_host env user_content
      in case fst r of
           None \<Rightarrow> query_llm env user_content h1 (snd r)
         | Some tool_response \<Rightarrow>
             if truthy tool_response then
               \<lparr>history = h1 @ [\<lparr>role = ''assistant'', content = tool_response\<rparr>],
                sent = [Llm_response (JStr user_content) tool_response],
                calls = snd r\<rparr>
             else query_llm env user_content h1 (snd r))"

text \<open>
  One iteration of the main message loop of \<open>handle_client\<close>. Invalid JSON, a frame
  that is not an object, a content that is not a string and an unknown type are
  logged; the loop goes on with the next frame.
\<close>

definition ignored :: "message list \<Rightarrow> host_call turn" where
  "ignored h = \<lparr>history = h, sent = [], calls = []\<rparr>"

definition handle_frame :: "'a host_env_scheme \<Rightarrow> string \<Rightarrow> message list \<Rightarrow> host_call turn" where
  "handle_frame env raw h =
     (case loads env raw of
        None \<Rightarrow> ignored h
      | Some data \<Rightarrow>
          (case py_get data ''type'' (JStr []) of
             Inl e \<Rightarrow> ignored h
           | Inr message_type \<Rightarrow>
               if message_type = JStr ''user_message'' then
                 (case py_get data ''content'' (JStr []) of
                    Inl e \<Rightarrow> ignored h
                  | Inr (JStr c) \<Rightarrow>
                      if strip c = [] then ignored h else user_turn env (strip c) h
                  | Inr _ \<Rightarrow> ignored h)
               else if message_type = JStr ''clear_history'' then
                 \<lparr>history = [], sent = [History_cleared], calls = []\<rparr>
               else ignored h))"

text \<open>
  \<open>handle_client\<close> for one connection: its own empty history, the welcome message,
  then the frames in the order they arrive, for as long as the connection stays open
  (a send on a closed connection ends the loop).
\<close>

definition next_frame :: "'a host_env_scheme \<Rightarrow> host_call turn \<Rightarrow> string \<Rightarrow> host_call turn" where
  "next_frame env t raw =
     (let t' = handle_frame env raw (history t)
      in \<lparr>history = history t', sent = sent t @ sent t', calls = calls t @ calls t'\<rparr>)"

definition greeting :: "host_call turn" where
  "greeting =
     \<lparr>history = [],
      sent = [System_message ''Connected to MCP Host. Type a message to begin.''],
      calls = []\<rparr>"

definition handle_client :: "'a host_env_scheme \<Rightarrow> string list \<Rightarrow> host_call turn" where
  "handle_client env raws = foldl (next_frame env) greeting raws"

section \<open>Notions used in the statements\<close>


text \<open>
  The events of the specification's stream decoder, read off a line: the terminal
  close line, and the value of a \<open>Result\<close> event (a data line carrying a JSON object
  with a \<open>result\<close> key). \<open>emitted_results\<close> lists the \<open>Result\<close> values of a stream
  up to its close line.
\<close>

definition is_close :: "string \<Rightarrow> bool" where
  "is_close line = (\<not> startswith ''data: '' line \<and> startswith ''event: close'' line)"

definition result_of :: "(string \<Rightarrow> json option) \<Rightarrow> string \<Rightarrow> json option" where
  "result_of json_loads line =
     (if startswith ''data: '' line then
        (case json_loads (drop 6 line) of
           Some (JObj kvs) \<Rightarrow> map_of kvs ''result''
         | _ \<Rightarrow> None)
      else None)"

fun emitted_results :: "(string \<Rightarrow> json option) \<Rightarrow> string list \<Rightarrow> json list" where
  "emitted_results json_loads [] = []"
| "emitted_results json_loads (line # lines) =
     (if is_close line then []
      else (case result_of json_loads line of
              Some v \<Rightarrow> v # emitted_results json_loads lines
            | None \<Rightarrow> emitted_results json_loads lines))"

text \<open>The name of a descriptor whose \<open>name\<close> is a string.\<close>

definition descriptor_name :: "json \<Rightarrow> string option" where
  "descriptor_name t = (case py_getitem t ''name'' of Inr (JStr n) \<Rightarrow> Some n | _ \<Rightarrow> None)"

text \<open>
  A configuration entry with a \<open>url\<close>, and what such an entry adds to the registry
  in each of the two hosts.
\<close>

definition has_url :: "json \<Rightarrow> bool" where
  "has_url server = (case py_getitem server ''url'' of Inl e \<Rightarrow> False | Inr u \<Rightarrow> True)"

definition contribution :: "(json \<Rightarrow> string) \<Rightarrow> (string \<Rightarrow> http_outcome) \<Rightarrow> json \<Rightarrow> json list" where
  "contribution str_of http_get server =
     (case py_getitem server ''url'' of
        Inl e \<Rightarrow> []
      | Inr server_url \<Rightarrow> fetch_tools str_of http_get server_url)"

definition contribution_host :: "(json \<Rightarrow> string) \<Rightarrow> (string \<Rightarrow> http_outcome) \<Rightarrow> json \<Rightarrow> json list" where
  "contribution_host str_of http_get server =
     (case py_getitem server ''url'' of
        Inl e \<Rightarrow> []
      | Inr server_url \<Rightarrow>
          (case py_get server ''name'' (JStr ''unknown'') of
             Inl e \<Rightarrow> []
           | Inr server_name \<Rightarrow>
               (case py_get server ''path'' (JStr []) of
                  Inl e \<Rightarrow> []
                | Inr server_path \<Rightarrow>
                    server_tools_host str_of http_get server_url server_name server_path)))"

section \<open>Example inputs\<close>

text \<open>Frames and stream lines, and a decoder that knows them.\<close>

definition blank_frame :: string where
  \<open>blank_frame = ''{"type": "user_message", "content": "   "}''\<close>

definition products_frame :: string where
  \<open>products_frame = ''{"type": "user_message", "content": "show products"}''\<close>

definition password_frame :: string where
  \<open>password_frame = ''{"type": "user_message", "content": "my password is hunter2"}''\<close>

definition hello_frame :: string where
  \<open>hello_frame = ''{"type": "user_message", "content": "hello"}''\<close>


definition result_line :: string where
  \<open>result_line = ''data: {"result": 1}''\<close>

definition user_message_frame :: "string \<Rightarrow> json" where
  "user_message_frame c = JObj [(''type'', JStr ''user_message''), (''content'', JStr c)]"

definition example_loads :: "string \<Rightarrow> json option" where
  "example_loads =
     map_of
       [(drop 6 result_line, JObj [(''result'', JNum 1)]),
        (''{}'', JObj []),
        (blank_frame, user_message_frame ''   ''),
        (products_frame, user_message_frame ''show products''),
        (password_frame, user_message_frame ''my password is hunter2''),
        (hello_frame, user_message_frame ''hello'')]"

text \<open>Twelve products, and two providers that both declare a tool named \<open>x\<close>.\<close>

definition product :: "string \<Rightarrow> json" where
  "product n = JObj [(''product_name'', JStr n), (''brand_name'', JStr ''Acme'')]"

definition twelve_products :: "json list" where
  "twelve_products =
     map product [''a'', ''b'', ''c'', ''d'', ''e'', ''f'', ''g'', ''h'', ''i'', ''j'', ''k'', ''l'']"

definition tool_x :: "string \<Rightarrow> json" where
  "tool_x d = JObj [(''name'', JStr ''x''), (''description'', JStr d), (''parameters'', JObj [])]"

definition provider_a :: json where
  "provider_a = JObj [(''name'', JStr ''a''), (''url'', JStr ''http://a'')]"

definition provider_b :: json where
  "provider_b = JObj [(''name'', JStr ''b''), (''url'', JStr ''http://b'')]"

definition example_http_get :: "string \<Rightarrow> http_outcome" where
  "example_http_get url =
     (if url = ''http://a/tools'' then Http_response 200 (Some (JArr [tool_x ''first'']))
      else if url = ''http://b/tools'' then Http_response 200 (Some (JArr [tool_x ''second'']))
      else Http_raised (Httpx ConnectError))"

text \<open>
  A language model that answers with the number of messages it was sent, and a
  streaming host whose products server answers with the given lines.
\<close>

definition example_ollama :: "message list \<Rightarrow> ollama_outcome" where
  "example_ollama h =
     Ollama_response 200
       (Some (JObj [(''message'',
          JObj [(''role'', JStr ''assistant''),
                (''content'', JStr (''I was sent '' @ show_nat (length h) @ '' messages''))])]))"

definition example_root_env :: "string list \<Rightarrow> llm_env" where
  "example_root_env lines =
     \<lparr>loads = example_loads, to_str = (\<lambda>v. []), to_json = (\<lambda>v. []),
      available_tools =
        [JObj [(''name'', JStr ''get_products''),
               (''description'', JStr ''Get products from the API''),
               (''parameters'', JObj [])]],
      tool_servers = [JObj [(''url'', JStr ''http://localhost:8000'')]],
      post_run = (\<lambda>url. Stream_response 200 lines),
      use_gemini = False,
      query_gemini = (\<lambda>m h. []),
      ollama_chat = example_ollama\<rparr>"

text \<open>
  A delegating host with the eagle and the products tool, a language model that always
  gives the same answer and a tool server with the same outcome for every request.
\<close>

definition example_host_env :: "string \<Rightarrow> http_outcome \<Rightarrow> host_env" where
  "example_host_env answer outcome =
     \<lparr>loads = example_loads, to_str = (\<lambda>v. []), to_json = (\<lambda>v. []),
      available_tools =
        [static_tool (\<lambda>v. []) ''get_eagle_feeds''
           ''Get information about eagle live feeds and webcams''
           (JStr ''http://localhost:8001'') (JStr ''/eagle-feeds''),
         static_tool (\<lambda>v. []) ''get_products''
           ''Get information about available products''
           (JStr ''http://localhost:8000'') (JStr ''/products'')],
      gemini = (\<lambda>prompt. answer),
      tool_get = (\<lambda>url. outcome),
      exc_text = (\<lambda>e. [])\<rparr>"

definition example_history :: "message list" where
  "example_history =
     [\<lparr>role = ''user'', content = JStr ''one''\<rparr>,
      \<lparr>role = ''assistant'', content = JStr ''two''\<rparr>,
      \<lparr>role = ''user'', content = JStr ''three''\<rparr>,
      \<lparr>role = ''assistant'', content = JStr ''four''\<rparr>,
      \<lparr>role = ''user'', content = JStr ''five''\<rparr>,
      \<lparr>role = ''assistant'', content = JStr ''six''\<rparr>]"

section \<open>Properties of the string functions\<close>

lemma startswith_prefix: "startswith p s \<longleftrightarrow> prefix p s"
  by (induction p s rule: startswith.induct) auto

lemma contains_sublist: "contains p s \<longleftrightarrow> sublist p s"
proof (induction s)
  case Nil
  then show ?case by simp
next
  case (Cons c cs)
  then show ?case by (simp add: startswith_prefix sublist_Cons_right del: startswith.simps)
qed



section \<open>Deterministic selection (src/mcp-host.py)\<close>







section \<open>The stream loop (src/mcp-host.py)\<close>









text \<open>After the loop, \<open>products_data\<close> is the last \<open>Result\<close> the stream emitted.\<close>

lemma sse_line_result:
  "sse_line jl line st = Next_line st' \<Longrightarrow>
     products_data st' = (case result_of jl line of Some v \<Rightarrow> v | None \<Rightarrow> products_data st)"
  "sse_line jl line st = Next_line st' \<Longrightarrow> \<not> is_close line"
  "sse_line jl line st = Break st' \<Longrightarrow> is_close line \<and> products_data st' = products_data st"
  by (auto simp: sse_line_def sse_data_def is_close_def result_of_def startswith_prefix prefix_def
      map_of_eq_None_iff [symmetric]
      split: option.splits if_splits sum.splits bool.splits json.splits)

lemma sse_loop_last_result:
  "sse_loop jl lines st = Inr st' \<Longrightarrow>
     products_data st' = last (products_data st # emitted_results jl lines)"
proof (induction lines arbitrary: st)
  case Nil
  then show ?case by simp
next
  case (Cons line lines)
  show ?case
  proof (cases "sse_line jl line st")
    case (Next_line s)
    with Cons.prems have "sse_loop jl lines s = Inr st'" by simp
    then have "products_data st' = last (products_data s # emitted_results jl lines)"
      by (rule Cons.IH)
    with sse_line_result(1,2) [OF Next_line] show ?thesis
      by (simp split: option.splits)
  next
    case (Break s)
    with Cons.prems have "s = st'" by simp
    with sse_line_result(3) [OF Break] show ?thesis by simp
  next
    case (Raised e)
    with Cons.prems show ?thesis by simp
  qed
qed

section \<open>The reply for a list of products (src/mcp-host.py)\<close>

lemma product_entry_object:
  assumes "is_object p"
  shows "\<exists>entry. product_entry str_of i p = Inr entry"
proof -
  from assms obtain kvs where "p = JObj kvs" by (cases p) auto
  then show ?thesis
    by (simp add: product_entry_def split: option.splits bool.splits)
qed

lemma product_entries_objects:
  assumes "\<forall>p \<in> set ps. is_object p"
  shows "\<exists>entries. length entries = length ps
           \<and> (\<forall>k < length ps. product_entry str_of (i + k) (ps ! k) = Inr (entries ! k))
           \<and> product_entries str_of i ps acc = Inr (acc @ concat entries)"
  using assms
proof (induction ps arbitrary: i acc)
  case Nil
  then show ?case by simp
next
  case (Cons p ps)
  then obtain entry where e: "product_entry str_of i p = Inr entry"
    using product_entry_object [of p str_of i] by auto
  from Cons obtain entries where es: "length entries = length ps"
      "\<forall>k < length ps. product_entry str_of (Suc i + k) (ps ! k) = Inr (entries ! k)"
      "product_entries str_of (Suc i) ps (acc @ entry) = Inr ((acc @ entry) @ concat entries)"
    by (metis list.set_intros(2))
  have "\<forall>k < length (p # ps). product_entry str_of (i + k) ((p # ps) ! k) = Inr ((entry # entries) ! k)"
  proof (intro allI impI)
    fix k assume "k < length (p # ps)"
    then show "product_entry str_of (i + k) ((p # ps) ! k) = Inr ((entry # entries) ! k)"
      using e es(2) by (cases k) auto
  qed
  with es(1,3) e show ?case
    by (intro exI [of _ "entry # entries"]) simp
qed

text \<open>
  C2, as amended. For every non-empty list payload of M product objects, the reply is
  the header, then the entries of the first min(M, 10) products, numbered from 1 in
  the order of the list, and, when M > 10, the suffix "(Showing 10 of M products)".
\<close>

theorem list_reply:
  assumes "products \<noteq> []" and "\<forall>p \<in> set products. is_object p"
  shows "\<exists>entries.
           length entries = min (length products) 10
           \<and> (\<forall>k < length entries. product_entry (to_str env) (Suc k) (products ! k) = Inr (entries ! k))
           \<and> reply_of_products env (JArr products) =
               Inr (Some (header @ concat entries
                          @ (if length products > 10
                             then ''(Showing 10 of '' @ show_nat (length products) @ '' products)''
                             else [])))"
proof -
  from assms(2) have "\<forall>p \<in> set (take 10 products). is_object p"
    by (auto dest: in_set_takeD)
  from product_entries_objects [OF this, of "to_str env" 1 header]
  obtain entries where es: "length entries = length (take 10 products)"
      "\<forall>k < length (take 10 products).
         product_entry (to_str env) (1 + k) (take 10 products ! k) = Inr (entries ! k)"
      "product_entries (to_str env) 1 (take 10 products) header = Inr (header @ concat entries)"
    by blast
  have "\<forall>k < length entries. product_entry (to_str env) (Suc k) (products ! k) = Inr (entries ! k)"
    using es(1,2) by simp
  moreover have "length entries = min (length products) 10" using es(1) by simp
  moreover have "reply_of_products env (JArr products) =
      Inr (Some (header @ concat entries
                 @ (if length products > 10
                    then ''(Showing 10 of '' @ show_nat (length products) @ '' products)''
                    else [])))"
    using assms(1) es(3) by (simp add: reply_of_products_def format_products_def)
  ultimately show ?thesis by blast
qed

theorem list_reply_witness:
  "twelve_products \<noteq> []
   \<and> list_all is_object twelve_products
   \<and> reply_of_products (example_root_env []) (JArr twelve_products) =
       Inr (Some (header
         @ ''1. a by Acme'' @ [CHR 0x0A, CHR 0x0A] @ ''2. b by Acme'' @ [CHR 0x0A, CHR 0x0A]
         @ ''3. c by Acme'' @ [CHR 0x0A, CHR 0x0A] @ ''4. d by Acme'' @ [CHR 0x0A, CHR 0x0A]
         @ ''5. e by Acme'' @ [CHR 0x0A, CHR 0x0A] @ ''6. f by Acme'' @ [CHR 0x0A, CHR 0x0A]
         @ ''7. g by Acme'' @ [CHR 0x0A, CHR 0x0A] @ ''8. h by Acme'' @ [CHR 0x0A, CHR 0x0A]
         @ ''9. i by Acme'' @ [CHR 0x0A, CHR 0x0A] @ ''10. j by Acme'' @ [CHR 0x0A, CHR 0x0A]
         @ ''(Showing 10 of 12 products)''))"
proof -
  have ne: "twelve_products \<noteq> []" by (simp add: twelve_products_def)
  have obj: "\<forall>p \<in> set twelve_products. is_object p"
    by (simp add: twelve_products_def product_def)
  have ev: "reply_of_products (example_root_env []) (JArr twelve_products) =
       Inr (Some (header
         @ ''1. a by Acme'' @ [CHR 0x0A, CHR 0x0A] @ ''2. b by Acme'' @ [CHR 0x0A, CHR 0x0A]
         @ ''3. c by Acme'' @ [CHR 0x0A, CHR 0x0A] @ ''4. d by Acme'' @ [CHR 0x0A, CHR 0x0A]
         @ ''5. e by Acme'' @ [CHR 0x0A, CHR 0x0A] @ ''6. f by Acme'' @ [CHR 0x0A, CHR 0x0A]
         @ ''7. g by Acme'' @ [CHR 0x0A, CHR 0x0A] @ ''8. h by Acme'' @ [CHR 0x0A, CHR 0x0A]
         @ ''9. i by Acme'' @ [CHR 0x0A, CHR 0x0A] @ ''10. j by Acme'' @ [CHR 0x0A, CHR 0x0A]
         @ ''(Showing 10 of 12 products)''))"
    by code_simp
  from list_reply [OF ne obj, of "example_root_env []"] ne obj ev
  show ?thesis by (simp add: list_all_iff)
qed

text \<open>
  The claim as stated fails: the reply for twelve products ends with
  "(Showing 10 of 12 products)" and nowhere holds the text "(Showing 10 of 12)", and an
  empty list is not truthy, so it gives no reply at all, not "No products were found.".
\<close>

theorem list_reply_counterexample:
  "map_sum id (map_option (contains ''(Showing 10 of 12)''))
     (reply_of_products (example_root_env []) (JArr twelve_products)) = Inr (Some False)
   \<and> map_sum id (map_option (\<lambda>r. drop (length r - 27) r))
     (reply_of_products (example_root_env []) (JArr twelve_products)) =
       Inr (Some ''(Showing 10 of 12 products)'')
   \<and> reply_of_products (example_root_env []) (JArr []) = Inr None"
  by code_simp

section \<open>A stream without a result (src/mcp-host.py)\<close>

lemma run_products_tool_last:
  assumes "first_server_url (tool_servers env) = Inr url"
    and "post_run env (fmt (to_str env) url @ ''/run'') = Stream_response 200 lines"
    and "sse_loop (loads env) lines sse_start = Inr st"
  shows "run_products_tool env =
           reply_of_products env (last (JNull # emitted_results (loads env) lines))"
proof -
  from sse_loop_last_result [OF assms(3)]
  have "products_data st = last (JNull # emitted_results (loads env) lines)"
    by (simp add: sse_start_def)
  with assms show ?thesis by (simp add: run_products_tool_def)
qed

lemma handle_message_fallthrough:
  assumes "loads env raw = Some data"
    and "user_message_of data = Inr (Some (JStr m))"
    and "check_and_use_tools env m = None"
  shows "handle_message env raw h = ask_llm env m (h @ [\<lparr>role = ''user'', content = JStr m\<rparr>])"
  using assms by (simp add: handle_message_def Let_def)

lemma ask_llm_calls:
  "calls (ask_llm env m h) = [if use_gemini env then Gemini_call m (butlast h) else Ollama_call h]"
  by (simp add: ask_llm_def Let_def split: ollama_outcome.splits sum.splits option.splits)

text \<open>
  C5, as amended. When the products server answers 200 and the loop over its stream
  ends without an exception, the reply is formatted from the last \<open>Result\<close> the stream
  emitted before its close. When it emitted none, \<open>check_and_use_tools\<close> returns
  \<open>None\<close>; and whenever it returns \<open>None\<close> for a user message, the turn is handed to
  the language model, which is sent the message.
\<close>

theorem no_result_falls_through:
  assumes "first_server_url (tool_servers env) = Inr url"
    and "post_run env (fmt (to_str env) url @ ''/run'') = Stream_response 200 lines"
    and "sse_loop (loads env) lines sse_start = Inr st"
  shows "run_products_tool env =
           reply_of_products env (last (JNull # emitted_results (loads env) lines))
         \<and> (emitted_results (loads env) lines = [] \<longrightarrow>
              run_products_tool env = Inr None \<and> check_and_use_tools env m = None)
         \<and> (check_and_use_tools env m = None
              \<and> loads env raw = Some data \<and> user_message_of data = Inr (Some (JStr m)) \<longrightarrow>
              handle_message env raw h = ask_llm env m (h @ [\<lparr>role = ''user'', content = JStr m\<rparr>])
              \<and> calls (handle_message env raw h) =
                  [if use_gemini env then Gemini_call m h
                   else Ollama_call (h @ [\<lparr>role = ''user'', content = JStr m\<rparr>])])"
proof -
  have last: "run_products_tool env =
      reply_of_products env (last (JNull # emitted_results (loads env) lines))"
    using assms by (rule run_products_tool_last)
  have none: "run_products_tool env = Inr None \<and> check_and_use_tools env m = None"
    if "emitted_results (loads env) lines = []"
    using that last
    by (simp add: reply_of_products_def check_and_use_tools_def split: sum.splits option.splits)
  have fall: "handle_message env raw h = ask_llm env m (h @ [\<lparr>role = ''user'', content = JStr m\<rparr>])
      \<and> calls (handle_message env raw h) =
          [if use_gemini env then Gemini_call m h
           else Ollama_call (h @ [\<lparr>role = ''user'', content = JStr m\<rparr>])]"
    if "check_and_use_tools env m = None" "loads env raw = Some data"
      "user_message_of data = Inr (Some (JStr m))"
    using handle_message_fallthrough [OF that(2,3,1), of h] by (simp add: ask_llm_calls)
  from last none fall show ?thesis by blast
qed

theorem no_result_falls_through_witness:
  "first_server_url (tool_servers (example_root_env [''data: {}'', [], ''event: close''])) =
     Inr (JStr ''http://localhost:8000'')
   \<and> sse_loop example_loads [''data: {}'', [], ''event: close''] sse_start =
     Inr \<lparr>products_data = JNull, log = [Stream_closed]\<rparr>
   \<and> emitted_results example_loads [''data: {}'', [], ''event: close''] = []
   \<and> check_and_use_tools (example_root_env [''data: {}'', [], ''event: close'']) ''show products'' = None
   \<and> calls (handle_message (example_root_env [''data: {}'', [], ''event: close'']) products_frame []) =
       [Ollama_call [\<lparr>role = ''user'', content = JStr ''show products''\<rparr>]]"
proof -
  let ?lines = "[''data: {}'', [], ''event: close'']"
  let ?env = "example_root_env ?lines"
  have g: "loads ?env = example_loads" by (simp add: example_root_env_def)
  have h: "use_gemini ?env = False" by (simp add: example_root_env_def)
  have a: "first_server_url (tool_servers ?env) = Inr (JStr ''http://localhost:8000'')"
    by code_simp
  have b: "post_run ?env (fmt (to_str ?env) (JStr ''http://localhost:8000'') @ ''/run'') =
      Stream_response 200 ?lines"
    by (simp add: example_root_env_def)
  have c: "sse_loop example_loads ?lines sse_start =
      Inr \<lparr>products_data = JNull, log = [Stream_closed]\<rparr>"
    by code_simp
  have d: "emitted_results example_loads ?lines = []"
    by code_simp
  have e: "loads ?env products_frame = Some (user_message_frame ''show products'')"
    by code_simp
  have f: "user_message_of (user_message_frame ''show products'') = Inr (Some (JStr ''show products''))"
    by code_simp
  from c have c': "sse_loop (loads ?env) ?lines sse_start =
      Inr \<lparr>products_data = JNull, log = [Stream_closed]\<rparr>"
    by (simp only: g)
  from d have d': "emitted_results (loads ?env) ?lines = []"
    by (simp only: g)
  note T = no_result_falls_through [OF a b c', of "''show products''" products_frame
      "user_message_frame ''show products''" "[]"]
  from T d' have none: "check_and_use_tools ?env ''show products'' = None"
    by blast
  from T none e f have "calls (handle_message ?env products_frame []) =
      [if use_gemini ?env then Gemini_call ''show products'' []
       else Ollama_call ([] @ [\<lparr>role = ''user'', content = JStr ''show products''\<rparr>])]"
    by blast
  then have calls: "calls (handle_message ?env products_frame []) =
      [Ollama_call [\<lparr>role = ''user'', content = JStr ''show products''\<rparr>]]"
    by (simp only: h if_False append_Nil)
  from a c d none calls show ?thesis by blast
qed

text \<open>
  The claim as stated fails: a stream that closes without a result leads to no reply
  about the tool; the user's message goes to the language model and its answer is the
  reply.
\<close>

theorem no_result_counterexample:
  "handle_message (example_root_env [''event: close'', ''data: {}'', []]) products_frame [] =
     \<lparr>history =
        [\<lparr>role = ''user'', content = JStr ''show products''\<rparr>,
         \<lparr>role = ''assistant'', content = JStr ''I was sent 1 messages''\<rparr>],
      sent = [Llm_response (JStr ''show products'') (JStr ''I was sent 1 messages'')],
      calls = [Ollama_call [\<lparr>role = ''user'', content = JStr ''show products''\<rparr>]]\<rparr>"
  by code_simp

section \<open>Discovery and lookup\<close>

lemma has_url_object:
  assumes "has_url server"
  obtains kvs u where "server = JObj kvs" and "map_of kvs ''url'' = Some u"
  using assms by (cases server) (auto simp: has_url_def split: option.splits)

lemma discover_tools_all:
  assumes "\<forall>s \<in> set servers. has_url s"
  shows "discover_tools str_of http_get servers tools =
           Inr (tools @ concat (map (contribution str_of http_get) servers))"
  using assms
proof (induction servers arbitrary: tools)
  case Nil
  then show ?case by simp
next
  case (Cons s servers)
  then have "has_url s" by simp
  then obtain kvs u where s: "s = JObj kvs" "map_of kvs ''url'' = Some u"
    by (rule has_url_object)
  from Cons have "discover_tools str_of http_get servers (tools @ fetch_tools str_of http_get u) =
      Inr ((tools @ fetch_tools str_of http_get u) @ concat (map (contribution str_of http_get) servers))"
    by simp
  moreover have "contribution str_of http_get s = fetch_tools str_of http_get u"
    using s by (simp add: contribution_def)
  ultimately show ?case using s by simp
qed

lemma discover_tools_host_all:
  assumes "\<forall>s \<in> set servers. has_url s"
  shows "discover_tools_host str_of http_get servers tools =
           Inr (tools @ concat (map (contribution_host str_of http_get) servers))"
  using assms
proof (induction servers arbitrary: tools)
  case Nil
  then show ?case by simp
next
  case (Cons s servers)
  then have "has_url s" by simp
  then obtain kvs u where s: "s = JObj kvs" "map_of kvs ''url'' = Some u"
    by (rule has_url_object)
  obtain n where n: "py_get s ''name'' (JStr ''unknown'') = Inr n"
    using s by (cases "map_of kvs ''name''") auto
  obtain p where p: "py_get s ''path'' (JStr []) = Inr p"
    using s by (cases "map_of kvs ''path''") auto
  from Cons have "discover_tools_host str_of http_get servers
        (tools @ server_tools_host str_of http_get u n p) =
      Inr ((tools @ server_tools_host str_of http_get u n p)
           @ concat (map (contribution_host str_of http_get) servers))"
    by simp
  moreover have "contribution_host str_of http_get s = server_tools_host str_of http_get u n p"
    using s n p by (simp add: contribution_host_def)
  ultimately show ?case using s n p by simp
qed

lemma find_tool_first:
  assumes "\<forall>t \<in> set r1. is_object t \<and> py_get t ''name'' JNull \<noteq> Inr (JStr n)"
    and "py_get d ''name'' JNull = Inr (JStr n)"
  shows "find_tool n (r1 @ d # r2) = Inr (Some d)"
  using assms(1)
proof (induction r1)
  case Nil
  with assms(2) show ?case by simp
next
  case (Cons t r1)
  then obtain kvs where "t = JObj kvs" by (cases t) auto
  with Cons show ?case by (auto split: option.splits)
qed

text \<open>
  C4, as amended. Over any list of configuration entries that have a url, discovery
  does not raise and the registry is the concatenation, in provider order, of what
  each provider yields (nothing for a provider that fails): every descriptor is kept,
  also one whose name is already in the registry. A lookup by name returns the
  earliest descriptor of that name, whatever follows it in the registry.
\<close>

theorem registry_first_seen_lookup:
  assumes "\<forall>s \<in> set servers. has_url s"
  shows "discover_tools str_of http_get servers [] =
           Inr (concat (map (contribution str_of http_get) servers))
         \<and> discover_tools_host str_of http_get servers [] =
           Inr (concat (map (contribution_host str_of http_get) servers))
         \<and> ((\<forall>t \<in> set r1. is_object t \<and> py_get t ''name'' JNull \<noteq> Inr (JStr n))
              \<and> py_get d ''name'' JNull = Inr (JStr n)
            \<longrightarrow> find_tool n (r1 @ d # r2) = Inr (Some d))"
  using discover_tools_all [OF assms, of str_of http_get "[]"]
    discover_tools_host_all [OF assms, of str_of http_get "[]"]
    find_tool_first [of r1 n d r2]
  by simp

theorem registry_first_seen_lookup_witness:
  "has_url provider_a \<and> has_url provider_b
   \<and> discover_tools (\<lambda>v. []) example_http_get [provider_a, provider_b] [] =
       Inr [tool_x ''first'', tool_x ''second'']
   \<and> discover_tools_host (\<lambda>v. []) example_http_get [provider_a, provider_b] [] =
       Inr [tool_x ''first'', tool_x ''second'']
   \<and> find_tool ''x'' [tool_x ''first'', tool_x ''second''] = Inr (Some (tool_x ''first''))"
proof -
  have a: "has_url provider_a" and b: "has_url provider_b" by code_simp+
  then have ab: "\<forall>s \<in> set [provider_a, provider_b]. has_url s" by simp
  have ca: "contribution (\<lambda>v. []) example_http_get provider_a = [tool_x ''first'']"
    and cb: "contribution (\<lambda>v. []) example_http_get provider_b = [tool_x ''second'']"
    and ha: "contribution_host (\<lambda>v. []) example_http_get provider_a = [tool_x ''first'']"
    and hb: "contribution_host (\<lambda>v. []) example_http_get provider_b = [tool_x ''second'']"
    by code_simp+
  have nm: "py_get (tool_x ''first'') ''name'' JNull = Inr (JStr ''x'')" by code_simp
  note T = registry_first_seen_lookup [OF ab, of "\<lambda>v. []" example_http_get "[]" "''x''"
      "tool_x ''first''" "[tool_x ''second'']"]
  from T have "discover_tools (\<lambda>v. []) example_http_get [provider_a, provider_b] [] =
      Inr [tool_x ''first'', tool_x ''second'']"
    by (simp add: ca cb)
  moreover from T have "discover_tools_host (\<lambda>v. []) example_http_get [provider_a, provider_b] [] =
      Inr [tool_x ''first'', tool_x ''second'']"
    by (simp add: ha hb)
  moreover from T nm have "find_tool ''x'' ([] @ tool_x ''first'' # [tool_x ''second'']) =
      Inr (Some (tool_x ''first''))"
    by simp
  ultimately show ?thesis using a b by simp
qed

text \<open>
  The claim as stated fails: two providers that declare the same name leave two
  descriptors of that name in the registry, in either host; so do two configured
  servers whose names both hold "product".
\<close>

theorem registry_duplicates_counterexample:
  "discover_tools (\<lambda>v. []) example_http_get [provider_a, provider_b] [] =
     Inr [tool_x ''first'', tool_x ''second'']
   \<and> \<not> distinct (map descriptor_name [tool_x ''first'', tool_x ''second''])
   \<and> map_sum id (map descriptor_name)
       (discover_tools_host (\<lambda>v. []) example_http_get
          [JObj [(''name'', JStr ''Product Server''), (''url'', JStr ''http://p1''),
                 (''path'', JStr ''/products'')],
           JObj [(''name'', JStr ''Product Mirror''), (''url'', JStr ''http://p2''),
                 (''path'', JStr ''/products'')]] []) =
       Inr [Some ''get_products'', Some ''get_products'']"
  by code_simp

section \<open>The host-wide history (src/mcp-host.py)\<close>

text \<open>
  Whichever connection a user message arrives on, it is appended to the one history
  that the turns of every connection read.
\<close>

lemma deliver_appends:
  assumes "loads env raw = Some data" and "user_message_of data = Inr (Some um)"
  shows "prefix (messages_history st @ [\<lparr>role = ''user'', content = um\<rparr>])
           (messages_history (deliver env st (ws, raw)))"
  using assms
  by (cases um)
    (auto simp: deliver_def handle_message_def ask_llm_def Let_def
      split: option.splits ollama_outcome.splits sum.splits)

text \<open>
  C1 fails in src/mcp-host.py. Connection 1 sends a message, then connection 2 sends
  "hello": the request made to the language model for connection 2 holds the message
  of connection 1, and the reply connection 2 receives is not the one it receives
  when connection 1 has sent nothing.
\<close>

theorem shared_history_leaks:
  "requests (run_host (example_root_env []) [(1, password_frame), (2, hello_frame)]) =
     [(1, Ollama_call [\<lparr>role = ''user'', content = JStr ''my password is hunter2''\<rparr>]),
      (2, Ollama_call
            [\<lparr>role = ''user'', content = JStr ''my password is hunter2''\<rparr>,
             \<lparr>role = ''assistant'', content = JStr ''I was sent 1 messages''\<rparr>,
             \<lparr>role = ''user'', content = JStr ''hello''\<rparr>])]
   \<and> received_by 2 (run_host (example_root_env []) [(1, password_frame), (2, hello_frame)]) =
     [Llm_response (JStr ''hello'') (JStr ''I was sent 3 messages'')]
   \<and> received_by 2 (run_host (example_root_env []) [(2, hello_frame)]) =
     [Llm_response (JStr ''hello'') (JStr ''I was sent 1 messages'')]"
  by code_simp

section \<open>Delegated selection (src/host/mcp-host.py)\<close>

lemma descriptor_nameD:
  assumes "descriptor_name t = Some n"
  shows "py_getitem t ''name'' = Inr (JStr n)"
  using assms by (auto simp: descriptor_name_def split: sum.splits json.splits)

lemma descriptor_truthy: "descriptor_name t = Some n \<Longrightarrow> truthy t"
  by (cases t) (auto simp: descriptor_name_def split: option.splits)

lemma select_tool_find:
  assumes "\<forall>t \<in> set tools. descriptor_name t \<noteq> None"
  shows "select_tool d tools =
           Inr (List.find (\<lambda>t. case descriptor_name t of Some n \<Rightarrow> sublist (lower n) d | None \<Rightarrow> False) tools)"
  using assms
proof (induction tools)
  case Nil
  then show ?case by simp
next
  case (Cons t ts)
  then obtain n where n: "descriptor_name t = Some n" by auto
  from Cons have "select_tool d ts =
      Inr (List.find (\<lambda>t. case descriptor_name t of Some n \<Rightarrow> sublist (lower n) d | None \<Rightarrow> False) ts)"
    by simp
  with n show ?case by (simp add: descriptor_nameD [OF n] contains_sublist)
qed

text \<open>
  C7. On a registry whose descriptors have a string name and a description, let the
  decision be the stripped, lowercased answer of the completion backend to the
  selection prompt. If the decision is "none" or empty, no tool is selected and the
  only outbound request is the selection prompt. Otherwise the first descriptor of
  the registry whose lowercased name is a substring of the decision is the one
  selected and invoked; if there is none, no tool is invoked and the function returns
  \<open>None\<close>, which sends the turn to the completion path.
\<close>

theorem delegated_selection:
  assumes names: "\<forall>t \<in> set (available_tools env). descriptor_name t \<noteq> None"
    and descs: "describe_tools (to_str env) (available_tools env) = Inr ds"
  shows "(let prompt = tool_selection_prompt (join [CHR 0x0A] ds) message;
              d = lower (strip (gemini env prompt))
          in check_and_use_tools_host env message =
               (if d = ''none'' \<or> d = [] then (None, [Gemini_query prompt])
                else
                  (case List.find
                          (\<lambda>t. case descriptor_name t of Some n \<Rightarrow> sublist (lower n) d | None \<Rightarrow> False)
                          (available_tools env) of
                     None \<Rightarrow> (None, [Gemini_query prompt])
                   | Some t \<Rightarrow> (invoke_selected env t, Gemini_query prompt # invoke_calls t))))"
proof -
  let ?P = "\<lambda>d t. case descriptor_name t of Some n \<Rightarrow> sublist (lower n) d | None \<Rightarrow> False"
  have sel: "select_tool d (available_tools env) = Inr (List.find (?P d) (available_tools env))" for d
    by (rule select_tool_find [OF names])
  have tr: "truthy t" if "List.find (?P d) (available_tools env) = Some t" for d t
  proof -
    from that have "t \<in> set (available_tools env)" by (auto simp: find_Some_iff)
    with names obtain n where "descriptor_name t = Some n" by auto
    then show ?thesis by (rule descriptor_truthy)
  qed
  define prompt where "prompt = tool_selection_prompt (join [CHR 0x0A] ds) message"
  define d where "d = lower (strip (gemini env prompt))"
  have eq: "check_and_use_tools_host env message =
      (if d = ''none'' \<or> d = [] then (None, [Gemini_query prompt])
       else
         (case List.find (?P d) (available_tools env) of
            None \<Rightarrow> (None, [Gemini_query prompt])
          | Some t \<Rightarrow> (invoke_selected env t, Gemini_query prompt # invoke_calls t)))"
  proof (cases "List.find (?P d) (available_tools env)")
    case None
    then show ?thesis
      by (simp add: check_and_use_tools_host_def descs tool_decision_of_def Let_def sel
          prompt_def [symmetric] d_def [symmetric])
  next
    case (Some t)
    then have "truthy t" by (rule tr)
    with Some show ?thesis
      by (simp add: check_and_use_tools_host_def descs tool_decision_of_def Let_def sel
          prompt_def [symmetric] d_def [symmetric])
  qed
  then show ?thesis unfolding Let_def d_def prompt_def .
qed

theorem delegated_selection_witness:
  "list_all (\<lambda>t. descriptor_name t \<noteq> None)
     (available_tools (example_host_env ''Use GET_PRODUCTS.'' (Http_response 404 None)))
   \<and> describe_tools (\<lambda>v. [])
       (available_tools (example_host_env ''Use GET_PRODUCTS.'' (Http_response 404 None))) =
       Inr [''- get_eagle_feeds: Get information about eagle live feeds and webcams'',
            ''- get_products: Get information about available products'']
   \<and> fst (check_and_use_tools_host (example_host_env ''Use GET_PRODUCTS.'' (Http_response 404 None))
            ''show products'') =
       Some (JStr (http_error ''get_products'' 404))
   \<and> map (\<lambda>a. fst (check_and_use_tools_host (example_host_env a (Http_response 404 None))
            ''show products''))
       ['' None '', [], ''get_weather''] = [None, None, None]"
proof -
  let ?env = "example_host_env ''Use GET_PRODUCTS.'' (Http_response 404 None)"
  have names: "\<forall>t \<in> set (available_tools ?env). descriptor_name t \<noteq> None"
    by (simp add: example_host_env_def static_tool_def descriptor_name_def)
  have str: "to_str ?env = (\<lambda>v. [])" by (simp add: example_host_env_def)
  have descs: "describe_tools (\<lambda>v. []) (available_tools ?env) =
       Inr [''- get_eagle_feeds: Get information about eagle live feeds and webcams'',
            ''- get_products: Get information about available products'']"
    by code_simp
  from descs have descs': "describe_tools (to_str ?env) (available_tools ?env) =
       Inr [''- get_eagle_feeds: Get information about eagle live feeds and webcams'',
            ''- get_products: Get information about available products'']"
    by (simp only: str)
  have ev: "fst (check_and_use_tools_host ?env ''show products'') =
       Some (JStr (http_error ''get_products'' 404))"
    by code_simp
  have no: "map (\<lambda>a. fst (check_and_use_tools_host (example_host_env a (Http_response 404 None))
            ''show products''))
       ['' None '', [], ''get_weather''] = [None, None, None]"
    by code_simp
  note T = delegated_selection [OF names descs', of "''show products''"]
  from T names descs ev no show ?thesis by (simp only: list_all_iff simp_thms)
qed

section \<open>Tool failures (src/host/mcp-host.py)\<close>

text \<open>
  No exception leads to the reply of the \<open>httpx.TimeoutException\<close> clause: a timeout
  is a \<open>RequestError\<close> and is caught by the clause before it.
\<close>

lemma timeout_is_request_error: "is_TimeoutException e \<Longrightarrow> is_RequestError e"
  by (cases e) simp_all

lemma timeout_clause_unreachable: "on_exception env tool_name e \<noteq> too_long tool_name"
  by (cases e)
    (auto simp: on_exception_def too_long_def connection_error_def other_error_def
      dest: timeout_is_request_error)

lemma timeout_reply: "is_TimeoutException e \<Longrightarrow>
    on_exception env tool_name (Httpx e) = connection_error tool_name"
  by (simp add: on_exception_def timeout_is_request_error)

text \<open>
  C3 fails in src/host/mcp-host.py. The language model chooses \<open>get_products\<close> and
  the request to the tool times out (\<open>httpx.ReadTimeout\<close>): the reply names the tool
  but reports a connection error, the same reply as for a failed connection
  (\<open>httpx.ConnectError\<close>), and does not hold "taking too long". The session goes on:
  the next frame is handled and answered.
\<close>

theorem timeout_reported_as_connection_error:
  "sent (handle_frame (example_host_env ''get_products'' (Http_raised (Httpx ReadTimeout)))
          products_frame []) =
     [Llm_response (JStr ''show products'') (JStr (connection_error ''get_products''))]
   \<and> sent (handle_frame (example_host_env ''get_products'' (Http_raised (Httpx ConnectError)))
          products_frame []) =
     [Llm_response (JStr ''show products'') (JStr (connection_error ''get_products''))]
   \<and> contains ''get_products'' (connection_error ''get_products'')
   \<and> \<not> contains ''taking too long'' (connection_error ''get_products'')
   \<and> length (sent (handle_client (example_host_env ''get_products'' (Http_raised (Httpx ReadTimeout)))
          [products_frame, products_frame])) = 3"
  by code_simp

section \<open>The message loop (src/host/mcp-host.py)\<close>




lemma slice_from_last: "slice_from (- 5) xs = drop (length xs - min (length xs) 5) xs"
  by (auto simp: slice_from_def Let_def max_def min_def nat_diff_distrib'
      intro: arg_cong [where f = "\<lambda>k. drop k xs"])

lemma user_turn_no_tool:
  assumes "case fst (check_and_use_tools_host env c) of None \<Rightarrow> True | Some r \<Rightarrow> \<not> truthy r"
  shows "user_turn env c h =
           query_llm env c (h @ [\<lparr>role = ''user'', content = JStr c\<rparr>]) (snd (check_and_use_tools_host env c))"
  using assms by (simp add: user_turn_def Let_def split: option.splits)

text \<open>
  C9. On the no-tool path (the tool check returned nothing, or a falsy reply), with H
  the session history including the user message just appended and n its length, the
  prompt sent to the completion backend is the lines \<open>ROLE: content\<close> of the last
  min(n, 5) messages of H, in the order of H, joined by newlines.
\<close>

theorem completion_prompt_window:
  assumes "case fst (check_and_use_tools_host env c) of None \<Rightarrow> True | Some r \<Rightarrow> \<not> truthy r"
  shows "(let H = h @ [\<lparr>role = ''user'', content = JStr c\<rparr>];
              n = length H;
              W = drop (n - min n 5) H
          in length W = min n 5
             \<and> calls (user_turn env c h) =
                 snd (check_and_use_tools_host env c)
                 @ [Gemini_query
                      (join [CHR 0x0A]
                         (map (\<lambda>m. upper (role m) @ '': '' @ fmt (to_str env) (content m)) W))])"
proof -
  have "role_line (to_str env) = (\<lambda>m. upper (role m) @ '': '' @ fmt (to_str env) (content m))"
    by (rule ext) (simp add: role_line_def)
  then show ?thesis
    unfolding user_turn_no_tool [OF assms]
    by (simp add: query_llm_def formatted_history_def slice_from_last Let_def)
qed

theorem completion_prompt_window_witness:
  "fst (check_and_use_tools_host (example_host_env ''none'' (Http_response 404 None)) ''seven'') = None
   \<and> last (calls (user_turn (example_host_env ''none'' (Http_response 404 None)) ''seven''
                    example_history)) =
       Gemini_query
         (''USER: three'' @ [CHR 0x0A] @ ''ASSISTANT: four'' @ [CHR 0x0A] @ ''USER: five''
          @ [CHR 0x0A] @ ''ASSISTANT: six'' @ [CHR 0x0A] @ ''USER: seven'')"
proof -
  let ?env = "example_host_env ''none'' (Http_response 404 None)"
  have a: "fst (check_and_use_tools_host ?env ''seven'') = None" by code_simp
  then have b: "case fst (check_and_use_tools_host ?env ''seven'') of
      None \<Rightarrow> True | Some r \<Rightarrow> \<not> truthy r"
    by simp
  have str: "to_str ?env = (\<lambda>v. [])" by (simp add: example_host_env_def)
  have w: "join [CHR 0x0A]
        (map (\<lambda>m. upper (role m) @ '': '' @ fmt (\<lambda>v. []) (content m))
           (drop (length (example_history @ [\<lparr>role = ''user'', content = JStr ''seven''\<rparr>])
                  - min (length (example_history @ [\<lparr>role = ''user'', content = JStr ''seven''\<rparr>])) 5)
              (example_history @ [\<lparr>role = ''user'', content = JStr ''seven''\<rparr>]))) =
      ''USER: three'' @ [CHR 0x0A] @ ''ASSISTANT: four'' @ [CHR 0x0A] @ ''USER: five''
        @ [CHR 0x0A] @ ''ASSISTANT: six'' @ [CHR 0x0A] @ ''USER: seven''"
    by code_simp
  from completion_prompt_window [OF b, of example_history]
  have "last (calls (user_turn ?env ''seven'' example_history)) =
      Gemini_query
        (join [CHR 0x0A]
          (map (\<lambda>m. upper (role m) @ '': '' @ fmt (\<lambda>v. []) (content m))
             (drop (length (example_history @ [\<lparr>role = ''user'', content = JStr ''seven''\<rparr>])
                    - min (length (example_history @ [\<lparr>role = ''user'', content = JStr ''seven''\<rparr>])) 5)
                (example_history @ [\<lparr>role = ''user'', content = JStr ''seven''\<rparr>]))))"
    by (simp only: Let_def str last_snoc)
  with a show ?thesis by (simp only: w simp_thms)
qed

end
